theory Spec2Isabelle
  imports Main "HOL-Library.Char_ord" "HOL-Library.List_Lexorder" "HOL-Library.Multiset"
begin

section \<open>NoteTaker: the note store and its HTTP handlers\<close>

text \<open>
  The development embeds \<^verbatim>\<open>database.py\<close> (one SQLite table \<^verbatim>\<open>notes\<close>) and the handlers
  of \<^verbatim>\<open>app.py\<close>. Python strings and the TEXT columns are \<open>string\<close>; the columns that may
  be NULL are \<open>string option\<close>; Python integers are \<open>int\<close>. TEXT values compare
  lexicographically, character by character, which is the order of \<^verbatim>\<open>ORDER BY\<close> on a TEXT
  column. What the code takes from its surroundings (the clock, \<^verbatim>\<open>uuid4\<close>, the table of
  \<^verbatim>\<open>mimetypes\<close>, whether the operating system lets a file be removed) is a parameter of
  the model. The resource limits of SQLite (64-bit row ids and bound integers, the maximal
  length of a LIKE pattern) are outside the model.
\<close>

subsection \<open>Python values\<close>

text \<open>Truth value of an \<^verbatim>\<open>Optional[str]\<close>: \<^verbatim>\<open>None\<close> and the empty string are falsy.\<close>

fun truthy :: "string option \<Rightarrow> bool" where
  "truthy None = False"
| "truthy (Some s) = (s \<noteq> [])"

text \<open>\<^verbatim>\<open>s.startswith(t)\<close> and the operator \<^verbatim>\<open>t in s\<close> on strings.\<close>

fun startswith :: "string \<Rightarrow> string \<Rightarrow> bool" where
  "startswith s [] = True"
| "startswith [] (c # t) = False"
| "startswith (d # s) (c # t) = (d = c \<and> startswith s t)"


subsection \<open>The table \<^verbatim>\<open>notes\<close>\<close>

record Note =
  note_id :: int
  note_type :: string
  content :: "string option"
  file_name :: "string option"
  file_path :: "string option"
  mime_type :: "string option"
  tags :: "string option"
  created_at :: string
  updated_at :: string

text \<open>
  The table is the list of its rows in row-id order, with the counter that SQLite keeps
  in \<^verbatim>\<open>sqlite_sequence\<close> for an \<^verbatim>\<open>INTEGER PRIMARY KEY AUTOINCREMENT\<close> column: the largest
  row id ever given out.
\<close>

record store =
  rows :: "Note list"
  seq :: int

text \<open>\<^verbatim>\<open>CREATE TABLE IF NOT EXISTS\<close>: an existing table is kept, a missing one starts empty.\<close>

definition init_db :: "store option \<Rightarrow> store" where
  "init_db existing =
     (case existing of None \<Rightarrow> \<lparr>rows = [], seq = 0\<rparr> | Some db \<Rightarrow> db)"

text \<open>
  The row id of an AUTOINCREMENT insert is one more than the largest of the counter and
  of the row ids in the table.
\<close>

definition next_rowid :: "store \<Rightarrow> int" where
  "next_rowid db = fold max (map note_id (rows db)) (seq db) + 1"

text \<open>
  \<^verbatim>\<open>database.create_note\<close>: \<open>now\<close> is the reading of \<^verbatim>\<open>datetime.utcnow().isoformat()\<close>.
  Returns \<^verbatim>\<open>cursor.lastrowid\<close> and the new table.
\<close>

definition db_create_note ::
  "string \<Rightarrow> string option \<Rightarrow> string option \<Rightarrow> string option \<Rightarrow> string option \<Rightarrow>
   string option \<Rightarrow> string \<Rightarrow> store \<Rightarrow> int \<times> store" where
  "db_create_note ntype cont fname fpath mime tgs now db =
     (let rowid = next_rowid db;
          row = \<lparr>note_id = rowid, note_type = ntype, content = cont, file_name = fname,
                 file_path = fpath, mime_type = mime, tags = tgs,
                 created_at = now, updated_at = now\<rparr>
      in (rowid, \<lparr>rows = rows db @ [row], seq = rowid\<rparr>))"

text \<open>
  \<^verbatim>\<open>ORDER BY created_at DESC\<close>: a stable insertion sort into descending order. SQL leaves
  the order of rows with equal keys open; the model keeps them in row-id order.
\<close>

fun insert_desc :: "Note \<Rightarrow> Note list \<Rightarrow> Note list" where
  "insert_desc n [] = [n]"
| "insert_desc n (m # ms) =
     (if created_at m < created_at n then n # m # ms else m # insert_desc n ms)"

definition order_by_created_at_desc :: "Note list \<Rightarrow> Note list" where
  "order_by_created_at_desc ns = foldr insert_desc (rev ns) []"

text \<open>
  \<^verbatim>\<open>LIMIT ? OFFSET ?\<close> as SQLite evaluates it: a negative offset counts as 0 and a negative
  limit is no limit.
\<close>

definition sql_limit_offset :: "int \<Rightarrow> int \<Rightarrow> 'a list \<Rightarrow> 'a list" where
  "sql_limit_offset lim off xs =
     (let ys = drop (nat off) xs in if lim < 0 then ys else take (nat lim) ys)"

definition get_all_notes :: "int \<Rightarrow> int \<Rightarrow> store \<Rightarrow> Note list" where
  "get_all_notes lim off db = sql_limit_offset lim off (order_by_created_at_desc (rows db))"

text \<open>\<^verbatim>\<open>SELECT * FROM notes WHERE id = ?\<close> with \<^verbatim>\<open>fetchone\<close>.\<close>

definition get_note_by_id :: "int \<Rightarrow> store \<Rightarrow> Note option" where
  "get_note_by_id nid db = find (\<lambda>n. note_id n = nid) (rows db)"

text \<open>\<^verbatim>\<open>DELETE FROM notes WHERE id = ?\<close>; the result is \<^verbatim>\<open>cursor.rowcount > 0\<close>.\<close>

definition db_delete_note :: "int \<Rightarrow> store \<Rightarrow> bool \<times> store" where
  "db_delete_note nid db =
     (list_ex (\<lambda>n. note_id n = nid) (rows db),
      db\<lparr>rows := filter (\<lambda>n. note_id n \<noteq> nid) (rows db)\<rparr>)"

text \<open>
  The LIKE operator of SQLite without an ESCAPE clause: in the pattern \<^verbatim>\<open>%\<close> stands for any
  run of characters and \<^verbatim>\<open>_\<close> for any one character; every other character stands for
  itself, the letters A to Z and a to z without regard to case.
\<close>

definition tolower :: "char \<Rightarrow> char" where
  "tolower c =
     (case map_of (zip ''ABCDEFGHIJKLMNOPQRSTUVWXYZ'' ''abcdefghijklmnopqrstuvwxyz'') c of
        None \<Rightarrow> c
      | Some l \<Rightarrow> l)"

fun like :: "string \<Rightarrow> string \<Rightarrow> bool" where
  "like [] s = (s = [])"
| "like (p # ps) [] = (p = CHR ''%'' \<and> like ps [])"
| "like (p # ps) (c # cs) =
     (if p = CHR ''%'' then like ps (c # cs) \<or> like (p # ps) cs
      else if p = CHR ''_'' then like ps cs
      else tolower p = tolower c \<and> like ps cs)"

text \<open>\<^verbatim>\<open>column LIKE ?\<close> on a column that may be NULL: NULL never satisfies the WHERE clause.\<close>

fun column_like :: "string option \<Rightarrow> string \<Rightarrow> bool" where
  "column_like None pat = False"
| "column_like (Some s) pat = like pat s"

text \<open>The WHERE clause: \<^verbatim>\<open>content LIKE ? OR tags LIKE ? OR file_name LIKE ?\<close>.\<close>

definition matches_pattern :: "string \<Rightarrow> Note \<Rightarrow> bool" where
  "matches_pattern pat n =
     (column_like (content n) pat \<or> column_like (tags n) pat \<or> column_like (file_name n) pat)"

definition search_notes :: "string \<Rightarrow> int \<Rightarrow> store \<Rightarrow> Note list" where
  "search_notes query lim d =
     (let search_pattern = ''%'' @ query @ ''%''
      in sql_limit_offset lim 0
           (order_by_created_at_desc (filter (matches_pattern search_pattern) (rows d))))"

text \<open>\<^verbatim>\<open>SELECT COUNT(*) FROM notes\<close>.\<close>

definition get_note_count :: "store \<Rightarrow> int" where
  "get_note_count db = int (length (rows db))"

subsection \<open>Paths and the file system\<close>

text \<open>
  A path is the list of its components, as \<^verbatim>\<open>pathlib\<close> keeps them on a POSIX system (the
  root, when there is one, is the component \<^verbatim>\<open>/\<close>). Parsing a string splits it at \<^verbatim>\<open>/\<close> and
  drops the empty components and the components \<^verbatim>\<open>.\<close>; components \<^verbatim>\<open>..\<close> are kept, and it is
  the operating system that follows them when the path is used.
\<close>

type_synonym path = "string list"

fun split_sep :: "string \<Rightarrow> string list" where
  "split_sep [] = [[]]"
| "split_sep (c # s) =
     (if c = CHR ''/'' then [] # split_sep s
      else (case split_sep s of [] \<Rightarrow> [[c]] | w # ws \<Rightarrow> (c # w) # ws))"

definition parts :: "string \<Rightarrow> string list" where
  "parts s = filter (\<lambda>c. c \<noteq> [] \<and> c \<noteq> ''.'') (split_sep s)"

definition Path :: "string \<Rightarrow> path" where
  "Path s = (if startswith s ''/'' then ''/'' # parts s else parts s)"

text \<open>The operator \<^verbatim>\<open>/\<close> of \<^verbatim>\<open>pathlib\<close>: an absolute right operand replaces the left one.\<close>

definition joinpath :: "path \<Rightarrow> string \<Rightarrow> path" where
  "joinpath p s = (if startswith s ''/'' then Path s else p @ parts s)"


text \<open>
  What the operating system does with the components \<^verbatim>\<open>..\<close> of a path: each one cancels
  the component before it; at the root it stays at the root, and at the start of a
  relative path it stays, pointing above the working directory.
\<close>

fun resolve_step :: "path \<Rightarrow> string \<Rightarrow> path" where
  "resolve_step acc c =
     (if c \<noteq> ''..'' then acc @ [c]
      else if acc = [] \<or> last acc = ''..'' then acc @ [c]
      else if acc = [''/''] then acc
      else butlast acc)"

definition resolve :: "path \<Rightarrow> path" where
  "resolve p = foldl resolve_step [] p"

datatype fs_entry = RegularFile string | Directory

type_synonym filesystem = "path \<rightharpoonup> fs_entry"



text \<open>
  \<^verbatim>\<open>open(path, "wb")\<close> followed by \<^verbatim>\<open>write\<close>: the directory \<^verbatim>\<open>uploads\<close> is made when
  the module is loaded, and the write is taken to succeed.
\<close>

definition write_file :: "filesystem \<Rightarrow> path \<Rightarrow> string \<Rightarrow> filesystem" where
  "write_file files p bytes = files(resolve p \<mapsto> RegularFile bytes)"

definition UPLOAD_DIR :: path where
  "UPLOAD_DIR = Path ''uploads''"

subsection \<open>The surroundings of a request\<close>

text \<open>
  \<open>uuid4 k\<close> and \<open>utcnow k\<close> are the \<open>k\<close>-th identifier drawn and the \<open>k\<close>-th reading of
  the clock (in ISO format) during a request; \<open>guess_type\<close> is the first component of
  \<^verbatim>\<open>mimetypes.guess_type\<close>; \<open>path_suffix\<close> is \<^verbatim>\<open>Path(name).suffix\<close>; \<open>unlink\<close> removes a
  file and gives \<open>None\<close> when the operating system raises an exception instead.
\<close>

record env =
  uuid4 :: "nat \<Rightarrow> string"
  utcnow :: "nat \<Rightarrow> string"
  guess_type :: "string \<Rightarrow> string option"
  path_suffix :: "string \<Rightarrow> string"
  unlink :: "path \<Rightarrow> filesystem \<Rightarrow> filesystem option"

record world =
  db :: store
  disk :: filesystem

datatype error = HTTPException nat string | RuntimeError string

fun status_code :: "error \<Rightarrow> nat" where
  "status_code (HTTPException code detail) = code"
| "status_code (RuntimeError msg) = 500"

text \<open>Python's \<^verbatim>\<open>a or b\<close> on optional strings.\<close>

definition por :: "string option \<Rightarrow> string option \<Rightarrow> string option" where
  "por a b = (if truthy a then a else b)"

subsection \<open>\<^verbatim>\<open>POST /api/notes\<close>\<close>

record UploadFile =
  filename :: "string option"
  content_type :: "string option"
  file_content :: string

record created_note =
  created_id :: int
  created_type :: string
  created_file_name :: "string option"
  message :: string

record create_response =
  create_success :: bool
  created_notes :: "created_note list"
  count :: int

definition MAX_FILE_SIZE :: nat where
  "MAX_FILE_SIZE = 50 * 1024 * 1024"

text \<open>
  The body of the loop for a file that passed the checks: the bytes go to a new name in
  \<^verbatim>\<open>uploads\<close>, and a row of type \<^verbatim>\<open>file\<close> is inserted.
\<close>

definition store_upload ::
  "env \<Rightarrow> string option \<Rightarrow> string option \<Rightarrow> nat \<Rightarrow> UploadFile \<Rightarrow> world \<Rightarrow>
   created_note \<times> world" where
  "store_upload e cont tgs k file w =
     (let file_extension = path_suffix e (the (filename file));
          unique_filename = uuid4 e k @ file_extension;
          fpath = joinpath UPLOAD_DIR unique_filename;
          disk' = write_file (disk w) fpath (file_content file);
          mime = por (content_type file)
                   (por (guess_type e (the (filename file)))
                        (Some ''application/octet-stream''));
          (nid, db') = db_create_note ''file'' (if truthy cont then cont else None)
                         (filename file) (Some (''uploads/'' @ unique_filename)) mime tgs
                         (utcnow e k) (db w)
      in (\<lparr>created_id = nid, created_type = ''file'', created_file_name = filename file,
           message = ''File uploaded successfully''\<rparr>,
          \<lparr>db = db', disk = disk'\<rparr>))"

text \<open>
  The loop over the uploaded files. \<open>k\<close> counts the files stored so far in this request,
  \<open>acc\<close> is \<^verbatim>\<open>created_notes\<close>. A file without a name is skipped before it is read. An
  exception leaves the loop with the world as it is then.
\<close>

fun upload_files ::
  "env \<Rightarrow> string option \<Rightarrow> string option \<Rightarrow> nat \<Rightarrow> UploadFile list \<Rightarrow> world \<Rightarrow>
   created_note list \<Rightarrow> (error + created_note list) \<times> world" where
  "upload_files e cont tgs k [] w acc = (Inr acc, w)"
| "upload_files e cont tgs k (file # files) w acc =
     (if \<not> truthy (filename file) then upload_files e cont tgs k files w acc
      else if length (file_content file) > MAX_FILE_SIZE then
        (Inl (HTTPException 413
               (''File '' @ the (filename file) @ '' is too large (max 50MB)'')), w)
      else
        (let (cn, w') = store_upload e cont tgs k file w
         in upload_files e cont tgs (Suc k) files w' (acc @ [cn])))"

definition is_file_upload :: "UploadFile list \<Rightarrow> bool" where
  "is_file_upload files = (files \<noteq> [] \<and> truthy (filename (hd files)))"

definition create_note ::
  "env \<Rightarrow> string option \<Rightarrow> string option \<Rightarrow> string option \<Rightarrow> UploadFile list \<Rightarrow> world \<Rightarrow>
   (error + create_response) \<times> world" where
  "create_note e cont link tgs files w =
     (if is_file_upload files then
        (case upload_files e cont tgs 0 files w [] of
           (Inl err, w') \<Rightarrow> (Inl err, w')
         | (Inr cns, w') \<Rightarrow>
             (Inr \<lparr>create_success = True, created_notes = cns, count = int (length cns)\<rparr>, w'))
      else if truthy link then
        (let (nid, db') = db_create_note ''link'' link None None None tgs (utcnow e 0) (db w);
             cns = [\<lparr>created_id = nid, created_type = ''link'', created_file_name = None,
                     message = ''Link saved successfully''\<rparr>]
         in (Inr \<lparr>create_success = True, created_notes = cns, count = int (length cns)\<rparr>,
             w\<lparr>db := db'\<rparr>))
      else if truthy cont then
        (let (nid, db') = db_create_note ''text'' cont None None None tgs (utcnow e 0) (db w);
             cns = [\<lparr>created_id = nid, created_type = ''text'', created_file_name = None,
                     message = ''Note saved successfully''\<rparr>]
         in (Inr \<lparr>create_success = True, created_notes = cns, count = int (length cns)\<rparr>,
             w\<lparr>db := db'\<rparr>))
      else (Inl (HTTPException 400 ''No content, link, or files provided''), w))"

subsection \<open>\<^verbatim>\<open>GET /api/notes\<close> and \<^verbatim>\<open>GET /api/notes/{note_id}\<close>\<close>

record list_response =
  list_success :: bool
  list_notes :: "Note list"
  total :: int
  limit :: int
  offset :: int

definition get_notes :: "int \<Rightarrow> int \<Rightarrow> string option \<Rightarrow> store \<Rightarrow> list_response" where
  "get_notes lim off search d =
     (let ns = (if truthy search then search_notes (the search) lim d
                else get_all_notes lim off d);
          tot = get_note_count d
      in \<lparr>list_success = True, list_notes = ns, total = tot, limit = lim, offset = off\<rparr>)"

definition get_note :: "int \<Rightarrow> store \<Rightarrow> error + Note" where
  "get_note nid d =
     (case get_note_by_id nid d of
        None \<Rightarrow> Inl (HTTPException 404 ''Note not found'')
      | Some n \<Rightarrow> Inr n)"

subsection \<open>\<^verbatim>\<open>DELETE /api/notes/{note_id}\<close>\<close>



subsection \<open>\<^verbatim>\<open>GET /files/{filename}\<close>\<close>




section \<open>Vocabulary of the properties\<close>












text \<open>
  The statements that change the table, and a run of them: \<open>run_ops\<close> gives the row ids
  that the inserts return, in order, and the table at the end. The handlers change the
  table through \<^verbatim>\<open>database.create_note\<close> and \<^verbatim>\<open>database.delete_note\<close> only.
\<close>

datatype db_op =
  Insert string "string option" "string option" "string option" "string option"
    "string option" string
| Delete int

fun run_ops :: "db_op list \<Rightarrow> store \<Rightarrow> int list \<times> store" where
  "run_ops [] d = ([], d)"
| "run_ops (Insert ntype cont fname fpath mime tgs now # ops) d =
     (let (nid, d') = db_create_note ntype cont fname fpath mime tgs now d;
          (ids, d'') = run_ops ops d'
      in (nid # ids, d''))"
| "run_ops (Delete nid # ops) d = run_ops ops (snd (db_delete_note nid d))"

text \<open>
  The counter of \<^verbatim>\<open>sqlite_sequence\<close> is at least every row id in the table: SQLite keeps
  this for a table whose rows are all inserted without an explicit id, as here.
\<close>

definition counter_covers_rows :: "store \<Rightarrow> bool" where
  "counter_covers_rows d = (\<forall>n\<in>set (rows d). note_id n \<le> seq d)"

text \<open>Concrete surroundings, notes and tables on which the theorems are exercised.\<close>

definition example_env :: env where
  "example_env =
     \<lparr>uuid4 = (\<lambda>k. replicate (Suc k) CHR ''u''),
      utcnow = (\<lambda>k. ''2024-01-05T10:00:00'' @ replicate k CHR ''9''),
      guess_type = (\<lambda>name. None),
      path_suffix = (\<lambda>name. ''.txt''),
      unlink = (\<lambda>p files. Some (files(resolve p := None)))\<rparr>"


definition text_note :: "int \<Rightarrow> string \<Rightarrow> string \<Rightarrow> Note" where
  "text_note i c t =
     \<lparr>note_id = i, note_type = ''text'', content = Some c, file_name = None, file_path = None,
      mime_type = None, tags = None, created_at = t, updated_at = t\<rparr>"


definition three_notes :: store where
  "three_notes =
     \<lparr>rows = [text_note 1 ''alpha'' ''2024-01-01T10:00:00'',
              text_note 2 ''beta'' ''2024-01-03T10:00:00'',
              text_note 3 ''gamma'' ''2024-01-02T10:00:00''],
      seq = 3\<rparr>"

definition empty_world :: world where
  "empty_world = \<lparr>db = init_db None, disk = [UPLOAD_DIR \<mapsto> Directory]\<rparr>"





section \<open>Auxiliary facts\<close>

subsection \<open>Strings and LIKE\<close>









subsection \<open>Ordering and slicing\<close>














subsection \<open>Row ids\<close>

lemma fold_max_eq: "fold max xs (a::int) = Max (set (a # xs))"
  by (simp only: Max.set_eq_fold)

lemma next_rowid_fresh: "n \<in> set (rows d) \<Longrightarrow> note_id n < next_rowid d"
proof -
  assume "n \<in> set (rows d)"
  then have "note_id n \<in> set (seq d # map note_id (rows d))" by simp
  then have "note_id n \<le> Max (set (seq d # map note_id (rows d)))" by (intro Max_ge) simp_all
  then show ?thesis unfolding next_rowid_def fold_max_eq by linarith
qed

lemma next_rowid_seq: "seq d < next_rowid d"
proof -
  have "seq d \<le> Max (set (seq d # map note_id (rows d)))" by (intro Max_ge) simp_all
  then show ?thesis unfolding next_rowid_def fold_max_eq by linarith
qed

lemma find_append_fresh: "\<forall>x\<in>set xs. \<not> P x \<Longrightarrow> P y \<Longrightarrow> find P (xs @ [y]) = Some y"
  by (induction xs) auto

lemma get_note_by_id_created:
  assumes "db_create_note ntype cont fname fpath mime tgs now d = (nid, d')"
  shows "get_note_by_id nid d' =
     Some \<lparr>note_id = nid, note_type = ntype, content = cont, file_name = fname,
            file_path = fpath, mime_type = mime, tags = tgs,
            created_at = now, updated_at = now\<rparr>"
proof -
  have fresh: "\<forall>x\<in>set (rows d). \<not> note_id x = next_rowid d"
    using next_rowid_fresh by fastforce
  from assms have "nid = next_rowid d" and
    "rows d' = rows d @ [\<lparr>note_id = nid, note_type = ntype, content = cont, file_name = fname,
            file_path = fpath, mime_type = mime, tags = tgs,
            created_at = now, updated_at = now\<rparr>]"
    by (auto simp: db_create_note_def Let_def)
  then show ?thesis
    using fresh by (simp add: get_note_by_id_def find_append_fresh)
qed

subsection \<open>Paths\<close>









subsection \<open>The upload loop\<close>





subsection \<open>The branches of note creation\<close>

lemma create_note_text:
  "\<not> is_file_upload files \<Longrightarrow> \<not> truthy link \<Longrightarrow> truthy cont \<Longrightarrow>
   create_note e cont link tgs files w =
     (Inr \<lparr>create_success = True,
           created_notes = [\<lparr>created_id = next_rowid (db w), created_type = ''text'',
                              created_file_name = None, message = ''Note saved successfully''\<rparr>],
           count = 1\<rparr>,
      w\<lparr>db := snd (db_create_note ''text'' cont None None None tgs (utcnow e 0) (db w))\<rparr>)"
  by (simp add: create_note_def db_create_note_def Let_def)


lemma db_create_note_eq:
  "db_create_note ntype cont fname fpath mime tgs now d =
     (next_rowid d, snd (db_create_note ntype cont fname fpath mime tgs now d))"
  by (simp add: db_create_note_def Let_def)

section \<open>The properties\<close>

subsection \<open>C7: the total of a list request\<close>

text \<open>
  C7. The field \<open>total\<close> of the answer to a list request is the number of all the rows of
  the table, whatever the search query is: it is never the number of the notes found.
\<close>

theorem total_is_unfiltered_count:
  "total (get_notes lim off search d) = int (length (rows d))"
  by (simp add: get_notes_def get_note_count_def Let_def)

theorem total_is_unfiltered_count_witness:
  "total (get_notes 100 0 (Some ''alpha'') three_notes) = 3 \<and>
   length (list_notes (get_notes 100 0 (Some ''alpha'') three_notes)) = 1"
proof -
  have "length (list_notes (get_notes 100 0 (Some ''alpha'') three_notes)) = 1"
    by (simp add: get_notes_def search_notes_def three_notes_def text_note_def
        matches_pattern_def tolower_def order_by_created_at_desc_def sql_limit_offset_def)
  moreover have "int (length (rows three_notes)) = 3"
    by (simp add: three_notes_def)
  ultimately show ?thesis
    using total_is_unfiltered_count[of 100 0 "Some ''alpha''" three_notes] by simp
qed

subsection \<open>C10: the empty search string\<close>

text \<open>
  C10. A list request whose search parameter is the empty string is answered as if there
  were no search parameter: the notes are those of the table, newest first, with limit and
  offset both applied. (On the table of three notes, offset 1 gives the second newest
  note, where a search for the empty string would give the newest.)
\<close>

theorem empty_search_is_no_search:
  "get_notes lim off (Some []) d = get_notes lim off None d \<and>
   list_notes (get_notes lim off (Some []) d) =
     sql_limit_offset lim off (order_by_created_at_desc (rows d))"
  by (simp add: get_notes_def get_all_notes_def)

theorem empty_search_is_no_search_witness:
  "get_notes 1 1 (Some []) three_notes = get_notes 1 1 None three_notes \<and>
   list_notes (get_notes 1 1 (Some []) three_notes) = [text_note 3 ''gamma'' ''2024-01-02T10:00:00''] \<and>
   search_notes [] 1 three_notes = [text_note 2 ''beta'' ''2024-01-03T10:00:00'']"
proof -
  have "sql_limit_offset 1 1 (order_by_created_at_desc (rows three_notes)) =
      [text_note 3 ''gamma'' ''2024-01-02T10:00:00'']"
    by (simp add: three_notes_def text_note_def order_by_created_at_desc_def sql_limit_offset_def)
  moreover have "search_notes [] 1 three_notes = [text_note 2 ''beta'' ''2024-01-03T10:00:00'']"
    by (simp add: search_notes_def three_notes_def text_note_def
        matches_pattern_def order_by_created_at_desc_def sql_limit_offset_def)
  moreover note empty_search_is_no_search[of 1 1 three_notes]
  ultimately show ?thesis by auto
qed

subsection \<open>C8: create, then get\<close>

text \<open>
  C8. Creating a text note with content \<^verbatim>\<open>hello\<close>, without link and without files, succeeds
  and returns one id; getting the note of that id then yields a note of type \<^verbatim>\<open>text\<close> whose
  content is \<^verbatim>\<open>hello\<close>.
\<close>

theorem create_text_then_get:
  "\<exists>resp cn n w'.
     create_note e (Some ''hello'') None tgs [] w = (Inr resp, w') \<and>
     created_notes resp = [cn] \<and>
     get_note (created_id cn) (db w') = Inr n \<and>
     note_id n = created_id cn \<and> note_type n = ''text'' \<and> content n = Some ''hello''"
proof -
  let ?d' = "snd (db_create_note ''text'' (Some ''hello'') None None None tgs (utcnow e 0) (db w))"
  have g: "get_note (next_rowid (db w)) ?d' =
      Inr \<lparr>note_id = next_rowid (db w), note_type = ''text'', content = Some ''hello'',
           file_name = None, file_path = None, mime_type = None, tags = tgs,
           created_at = utcnow e 0, updated_at = utcnow e 0\<rparr>"
    unfolding get_note_def get_note_by_id_created[OF db_create_note_eq] by simp
  have "create_note e (Some ''hello'') None tgs [] w =
    (Inr \<lparr>create_success = True,
           created_notes = [\<lparr>created_id = next_rowid (db w), created_type = ''text'',
                              created_file_name = None, message = ''Note saved successfully''\<rparr>],
           count = 1\<rparr>,
      w\<lparr>db := ?d'\<rparr>)"
    by (rule create_note_text) (simp_all add: is_file_upload_def)
  then show ?thesis using g by simp
qed

theorem create_text_then_get_witness:
  "(\<exists>resp cn n w'.
     create_note example_env (Some ''hello'') None None [] empty_world = (Inr resp, w') \<and>
     created_notes resp = [cn] \<and>
     get_note (created_id cn) (db w') = Inr n \<and>
     note_id n = created_id cn \<and> note_type n = ''text'' \<and> content n = Some ''hello'') \<and>
   fst (create_note example_env (Some ''hello'') None None [] empty_world) =
     Inr \<lparr>create_success = True,
          created_notes = [\<lparr>created_id = 1, created_type = ''text'', created_file_name = None,
                            message = ''Note saved successfully''\<rparr>],
          count = 1\<rparr> \<and>
   get_note 1 (db (snd (create_note example_env (Some ''hello'') None None [] empty_world))) =
     Inr (text_note 1 ''hello'' ''2024-01-05T10:00:00'')"
proof -
  have c: "create_note example_env (Some ''hello'') None None [] empty_world =
     (Inr \<lparr>create_success = True,
          created_notes = [\<lparr>created_id = 1, created_type = ''text'', created_file_name = None,
                            message = ''Note saved successfully''\<rparr>],
          count = 1\<rparr>,
      empty_world\<lparr>db := \<lparr>rows = [text_note 1 ''hello'' ''2024-01-05T10:00:00''], seq = 1\<rparr>\<rparr>)"
    by (simp add: create_note_def is_file_upload_def db_create_note_def next_rowid_def
        empty_world_def init_db_def example_env_def text_note_def)
  have g: "get_note 1 \<lparr>rows = [text_note 1 ''hello'' ''2024-01-05T10:00:00''], seq = 1\<rparr> =
      Inr (text_note 1 ''hello'' ''2024-01-05T10:00:00'')"
    by (simp add: get_note_def get_note_by_id_def text_note_def)
  from create_text_then_get[of example_env None empty_world] c g
  show ?thesis by simp
qed

subsection \<open>C6: listing without a search query\<close>






subsection \<open>C3: listing with a search query\<close>










subsection \<open>C1: the kind of note that a request creates\<close>








subsection \<open>C2: files that are too large\<close>






subsection \<open>C4: serving a file\<close>





subsection \<open>C5: deleting a note\<close>








subsection \<open>C9: row ids\<close>

lemma db_create_note_facts:
  assumes "db_create_note ntype cont fname fpath mime tgs now d = (nid, d')"
  shows "nid = next_rowid d" "seq d' = nid"
    "\<exists>row. rows d' = rows d @ [row] \<and> note_id row = nid"
  using assms by (auto simp: db_create_note_def Let_def)

lemma db_delete_note_facts:
  "seq (snd (db_delete_note nid d)) = seq d"
  "set (rows (snd (db_delete_note nid d))) \<subseteq> set (rows d)"
  by (auto simp: db_delete_note_def)

lemma covers_create:
  assumes "counter_covers_rows d" "db_create_note ntype cont fname fpath mime tgs now d = (nid, d')"
  shows "counter_covers_rows d'"
proof -
  from db_create_note_facts[OF assms(2)] obtain row where
    f: "nid = next_rowid d" "seq d' = nid" "rows d' = rows d @ [row]" "note_id row = nid" by blast
  have "note_id n \<le> seq d'" if "n \<in> set (rows d')" for n
  proof (cases "n = row")
    case True
    with f show ?thesis by simp
  next
    case False
    with that f have "n \<in> set (rows d)" by simp
    then have "note_id n < next_rowid d" by (rule next_rowid_fresh)
    with f show ?thesis by simp
  qed
  then show ?thesis by (simp add: counter_covers_rows_def)
qed

lemma covers_delete: "counter_covers_rows d \<Longrightarrow> counter_covers_rows (snd (db_delete_note nid d))"
  using db_delete_note_facts[of nid d] by (auto simp: counter_covers_rows_def)

lemma run_ops_ids:
  "run_ops ops d = (ids, d') \<Longrightarrow> sorted_wrt (<) ids \<and> (\<forall>i\<in>set ids. seq d < i)"
proof (induction ops arbitrary: d ids d')
  case Nil
  then show ?case by simp
next
  case (Cons op ops)
  show ?case
  proof (cases op)
    case (Insert ntype cont fname fpath mime tgs now)
    obtain nid d1 where c: "db_create_note ntype cont fname fpath mime tgs now d = (nid, d1)"
      by (cases "db_create_note ntype cont fname fpath mime tgs now d")
    obtain ids1 d2 where r: "run_ops ops d1 = (ids1, d2)" by (cases "run_ops ops d1")
    from Cons.prems Insert c r have ids: "ids = nid # ids1" by simp
    from db_create_note_facts(1,2)[OF c] next_rowid_seq[of d]
    have s: "seq d < nid" "seq d1 = nid" by simp_all
    from Cons.IH[OF r] s have "sorted_wrt (<) ids1" "\<forall>i\<in>set ids1. nid < i" by simp_all
    with s ids show ?thesis by auto
  next
    case (Delete nid)
    with Cons.prems have "run_ops ops (snd (db_delete_note nid d)) = (ids, d')" by simp
    from Cons.IH[OF this] show ?thesis by (simp add: db_delete_note_facts)
  qed
qed

lemma run_ops_covers:
  "counter_covers_rows d \<Longrightarrow> counter_covers_rows (snd (run_ops ops d))"
proof (induction ops arbitrary: d)
  case Nil
  then show ?case by simp
next
  case (Cons op ops)
  show ?case
  proof (cases op)
    case (Insert ntype cont fname fpath mime tgs now)
    obtain nid d1 where c: "db_create_note ntype cont fname fpath mime tgs now d = (nid, d1)"
      by (cases "db_create_note ntype cont fname fpath mime tgs now d")
    from covers_create[OF Cons.prems c] have "counter_covers_rows (snd (run_ops ops d1))"
      by (rule Cons.IH)
    with Insert c show ?thesis by (auto split: prod.splits)
  next
    case (Delete nid)
    from covers_delete[OF Cons.prems] have
      "counter_covers_rows (snd (run_ops ops (snd (db_delete_note nid d))))" by (rule Cons.IH)
    with Delete show ?thesis by simp
  qed
qed

text \<open>
  C9. In every run of inserts and deletes, the ids that the inserts return are strictly
  increasing, and each is larger than the counter at the start, hence larger than every id
  given out before. From a table whose counter covers its rows (as the empty table of
  \<^verbatim>\<open>init_db\<close> does, and as every run keeps it) each returned id is larger than the id of
  every row of the table, and after a note is deleted no later insert returns its id.
\<close>

theorem row_ids_never_reused:
  "(run_ops ops d = (ids, d') \<longrightarrow> sorted_wrt (<) ids \<and> (\<forall>i\<in>set ids. seq d < i)) \<and>
   (counter_covers_rows d \<and> run_ops ops d = (ids, d') \<longrightarrow>
      (\<forall>i\<in>set ids. \<forall>n\<in>set (rows d). note_id n < i) \<and> counter_covers_rows d') \<and>
   (counter_covers_rows d \<and> n \<in> set (rows d) \<longrightarrow>
      note_id n \<notin> set (fst (run_ops ops (snd (db_delete_note (note_id n) d))))) \<and>
   counter_covers_rows (init_db None)"
proof (intro conjI impI)
  assume "run_ops ops d = (ids, d')"
  from run_ops_ids[OF this]
  show "sorted_wrt (<) ids" "\<forall>i\<in>set ids. seq d < i" by simp_all
next
  assume a: "counter_covers_rows d \<and> run_ops ops d = (ids, d')"
  then have "\<forall>i\<in>set ids. seq d < i" using run_ops_ids by blast
  with a show "\<forall>i\<in>set ids. \<forall>n\<in>set (rows d). note_id n < i"
    by (fastforce simp: counter_covers_rows_def)
  from a run_ops_covers[of d ops] show "counter_covers_rows d'" by simp
next
  assume a: "counter_covers_rows d \<and> n \<in> set (rows d)"
  let ?d1 = "snd (db_delete_note (note_id n) d)"
  obtain ids1 d2 where r: "run_ops ops ?d1 = (ids1, d2)" by (cases "run_ops ops ?d1")
  from run_ops_ids[OF r] have "\<forall>i\<in>set ids1. seq d < i" by (simp add: db_delete_note_facts)
  moreover from a have "note_id n \<le> seq d" by (simp add: counter_covers_rows_def)
  ultimately have "note_id n \<notin> set ids1" by auto
  with r show "note_id n \<notin> set (fst (run_ops ops ?d1))" by simp
next
  show "counter_covers_rows (init_db None)" by (simp add: counter_covers_rows_def init_db_def)
qed

theorem row_ids_never_reused_witness:
  "fst (run_ops [Insert ''text'' (Some ''a'') None None None None ''2024-01-01T10:00:00'',
                 Insert ''text'' (Some ''b'') None None None None ''2024-01-02T10:00:00'',
                 Delete 2,
                 Insert ''text'' (Some ''c'') None None None None ''2024-01-03T10:00:00'']
          (init_db None)) = [1, 2, 3] \<and>
   sorted_wrt (<) [1, 2, (3::int)] \<and>
   counter_covers_rows three_notes \<and>
   2 \<notin> set (fst (run_ops [Insert ''text'' (Some ''c'') None None None None ''2024-01-04T10:00:00'']
                    (snd (db_delete_note 2 three_notes))))"
proof -
  let ?ops = "[Insert ''text'' (Some ''a'') None None None None ''2024-01-01T10:00:00'',
                 Insert ''text'' (Some ''b'') None None None None ''2024-01-02T10:00:00'',
                 Delete 2,
                 Insert ''text'' (Some ''c'') None None None None ''2024-01-03T10:00:00'']"
  have v: "fst (run_ops ?ops (init_db None)) = [1, 2, 3]"
    by (simp add: init_db_def db_create_note_def db_delete_note_def next_rowid_def)
  obtain d' where r: "run_ops ?ops (init_db None) = ([1, 2, 3], d')"
    using v by (cases "run_ops ?ops (init_db None)") simp
  have c: "counter_covers_rows three_notes"
    by (simp add: counter_covers_rows_def three_notes_def text_note_def)
  have m: "text_note 2 ''beta'' ''2024-01-03T10:00:00'' \<in> set (rows three_notes)"
    by (simp add: three_notes_def)
  have i: "note_id (text_note 2 ''beta'' ''2024-01-03T10:00:00'') = 2" by (simp add: text_note_def)
  from row_ids_never_reused[of ?ops "init_db None" "[1, 2, 3]" d'] r
  have 1: "sorted_wrt (<) [1, 2, (3::int)]" by blast
  from row_ids_never_reused[of "[Insert ''text'' (Some ''c'') None None None None ''2024-01-04T10:00:00'']"
      three_notes "[]" three_notes "text_note 2 ''beta'' ''2024-01-03T10:00:00''"] c m
  have "note_id (text_note 2 ''beta'' ''2024-01-03T10:00:00'') \<notin>
      set (fst (run_ops [Insert ''text'' (Some ''c'') None None None None ''2024-01-04T10:00:00'']
                 (snd (db_delete_note (note_id (text_note 2 ''beta'' ''2024-01-03T10:00:00''))
                   three_notes))))" by blast
  then have 2: "2 \<notin> set (fst (run_ops [Insert ''text'' (Some ''c'') None None None None ''2024-01-04T10:00:00'']
                    (snd (db_delete_note 2 three_notes))))" unfolding i .
  from v 1 c 2 show ?thesis by blast
qed

end
